theory Spec2Isabelle
  imports Main "HOL-Library.Multiset"
begin

section \<open>The memory card game of index.js\<close>

text \<open>
  The script keeps its state in variables of one closure (lines 38-59) and in the DOM
  (the card elements with their classes \<open>flipped\<close> and \<open>matched\<close>, the message area,
  the power-up button). Every function of the script becomes a function from the
  state to the new state. The callbacks it hands to \<open>setTimeout\<close> and \<open>setInterval\<close>
  are kept in the state with the time at which they are due, and the event loop is a
  step function over the events that the page can receive.
\<close>

subsection \<open>Configuration (lines 24-31)\<close>

definition MAX_POKEMON_ID_FOR_ARTWORK :: nat where
  "MAX_POKEMON_ID_FOR_ARTWORK = 1025"

datatype difficulty = Easy | Medium | Hard

fun gameSettings_pairs :: "difficulty \<Rightarrow> int" where
  "gameSettings_pairs Easy = 3"
| "gameSettings_pairs Medium = 6"
| "gameSettings_pairs Hard = 10"

fun gameSettings_time :: "difficulty \<Rightarrow> int" where
  "gameSettings_time Easy = 60"
| "gameSettings_time Medium = 120"
| "gameSettings_time Hard = 180"

subsection \<open>Data\<close>

text \<open>
  An entry of \<open>allPokemonList\<close> (line 129). The name comes from the API and may be
  missing; the id is the number that \<open>parseInt\<close> read and the filter of line 132 kept
  (positive); the image URL is built from the id.
\<close>

record pokemon =
  p_name :: "string option"
  p_id :: nat
  p_imageUrl :: string

text \<open>The two copies of a Pokemon in \<open>cardsData\<close> (lines 239-240).\<close>

datatype copy = CopyA | CopyB

text \<open>
  A card element of the grid (lines 261-276): its two data attributes, its two classes,
  and whether the image of its back has a \<open>src\<close> attribute yet (it is created with
  \<open>data-src\<close> only). \<open>data-card-id\<close> is always the id followed by \<open>-a\<close> or \<open>-b\<close>,
  so the element stores the copy and \<open>cardId\<close> renders the attribute.
\<close>

record card =
  pokemonId :: nat
  cardCopy :: copy
  flipped :: bool
  matched :: bool
  srcSet :: bool

type_synonym elem = nat

text \<open>The bodies that the script schedules with \<open>setTimeout\<close>.\<close>

datatype callback =
    MismatchShow
  | TurnReset
  | PowerUpConceal "elem list"
  | WinAlert
  | LoseAlert

datatype message =
    SelectModeAndStart | FetchingData | LoadFailed | DataLoaded | ApiError
  | LoadingCards | NoPokemonData | CardDataError | CardDisplayError
  | MatchEmAll | YouWon | GameOver | ModeSetStart

datatype alert = Congratulations | TimesUp

text \<open>
  The closure of one power-up click that waits for images (lines 536-556): its counter,
  its array of cards, and the images that still carry its one-shot handler.
\<close>

record gate =
  imagesToLoad :: int
  cardsToVisuallyFlip :: "elem list"
  waiting :: "elem list"

record state =
  currentDifficulty :: difficulty
  numPairs :: int
  totalTime :: int
  firstCard :: "elem option"
  secondCard :: "elem option"
  lockBoard :: bool
  gameActive :: bool
  clicks :: int
  pairsMatched :: int
  timeLeft :: int
  timerInterval :: "nat option"
  powerUpUsedThisGame :: bool
  allPokemonList :: "pokemon list"
  difficultySelect :: difficulty
  cards :: "elem \<Rightarrow> card"
  nextElem :: elem
  gameGrid :: "elem list"
  powerUpDisabled :: bool
  messageArea :: message
  alerts :: "alert list"
  now :: nat
  timeouts :: "(nat \<times> callback) list"
  gates :: "gate list"

text \<open>
  \<open>timerInterval\<close> is \<open>Some t\<close> while an interval is running, \<open>t\<close> the time of its next
  tick, and \<open>None\<close> after \<open>clearInterval\<close>. \<open>cards\<close> is the store of all card elements
  ever created, attached or not: a callback of an earlier game still holds the
  elements of that game. \<open>gameGrid\<close> lists the children of \<open>#game_grid\<close>. The statistics
  displays are functions of the counters and are left out.
\<close>

subsection \<open>Rendering numbers and card ids\<close>

definition digit :: "nat \<Rightarrow> char" where
  "digit d = char_of (48 + d)"

fun show_nat :: "nat \<Rightarrow> string" where
  "show_nat n = (if n < 10 then [digit n] else show_nat (n div 10) @ [digit (n mod 10)])"

declare show_nat.simps [simp del]

fun copySuffix :: "copy \<Rightarrow> string" where
  "copySuffix CopyA = ''-a''"
| "copySuffix CopyB = ''-b''"

definition cardId :: "card \<Rightarrow> string" where
  "cardId c = show_nat (pokemonId c) @ copySuffix (cardCopy c)"

subsection \<open>The shuffle\<close>

text \<open>
  \<open>xs.sort(() => 0.5 - Math.random())\<close> (lines 166 and 250) leaves some permutation
  of \<open>xs\<close>. The random choices are a parameter: each number picks the next element
  among those that remain.
\<close>

function shuffle :: "nat list \<Rightarrow> 'a list \<Rightarrow> 'a list" where
  "shuffle rs [] = []"
| "shuffle [] (x # xs) = x # xs"
| "shuffle (r # rs) (x # xs) =
     (let i = r mod length (x # xs)
      in (x # xs) ! i # shuffle rs (take i (x # xs) @ drop (Suc i) (x # xs)))"
  by pat_completeness auto
termination
  by (relation "measure (\<lambda>(rs, xs). length xs)") auto

subsection \<open>DOM helpers\<close>

definition setFlipped :: "bool \<Rightarrow> elem \<Rightarrow> state \<Rightarrow> state" where
  "setFlipped b e s = s\<lparr>cards := (cards s)(e := (cards s e)\<lparr>flipped := b\<rparr>)\<rparr>"

definition setMatched :: "elem \<Rightarrow> state \<Rightarrow> state" where
  "setMatched e s = s\<lparr>cards := (cards s)(e := (cards s e)\<lparr>matched := True\<rparr>)\<rparr>"

definition setSrc :: "elem \<Rightarrow> state \<Rightarrow> state" where
  "setSrc e s = s\<lparr>cards := (cards s)(e := (cards s e)\<lparr>srcSet := True\<rparr>)\<rparr>"

definition setTimeout :: "callback \<Rightarrow> nat \<Rightarrow> state \<Rightarrow> state" where
  "setTimeout cb ms s = s\<lparr>timeouts := timeouts s @ [(now s + ms, cb)]\<rparr>"

definition clearInterval :: "state \<Rightarrow> state" where
  "clearInterval s = s\<lparr>timerInterval := None\<rparr>"

subsection \<open>updateGameConfig (lines 86-90)\<close>

definition updateGameConfig :: "state \<Rightarrow> state" where
  "updateGameConfig s =
     s\<lparr>currentDifficulty := difficultySelect s,
       numPairs := gameSettings_pairs (difficultySelect s),
       totalTime := gameSettings_time (difficultySelect s)\<rparr>"

subsection \<open>endGame (lines 460-496)\<close>

definition endGame :: "bool \<Rightarrow> state \<Rightarrow> state" where
  "endGame isWin s =
     (if \<not> gameActive s \<and> \<not> isWin \<and> timeLeft s > 0 then s
      else if \<not> gameActive s \<and> isWin then s
      else if \<not> gameActive s \<and> \<not> isWin \<and> timeLeft s \<le> 0 then s
      else
        let s1 = clearInterval (s\<lparr>gameActive := False\<rparr>);
            s2 = s1\<lparr>lockBoard := True, powerUpDisabled := True\<rparr>;
            s3 = s2\<lparr>cards := (\<lambda>e. if e \<in> set (gameGrid s2) \<and> matched (cards s2 e)
                                    then (cards s2 e)\<lparr>flipped := True\<rparr> else cards s2 e)\<rparr>
        in if isWin then setTimeout WinAlert 100 (s3\<lparr>messageArea := YouWon\<rparr>)
           else if timeLeft s3 \<le> 0 then setTimeout LoseAlert 100 (s3\<lparr>messageArea := GameOver\<rparr>)
           else s3)"

subsection \<open>The turn (lines 306-406)\<close>

text \<open>The body of the timeout of \<open>resetTurnAfterDelay\<close> (lines 396-404).\<close>

definition resetTurnAfterDelay_timeout :: "state \<Rightarrow> state" where
  "resetTurnAfterDelay_timeout s =
     (let s1 = s\<lparr>firstCard := None, secondCard := None, lockBoard := False\<rparr>
      in if gameActive s1 \<and> pairsMatched s1 = numPairs s1 then endGame True s1 else s1)"

definition resetTurnAfterDelay :: "state \<Rightarrow> state" where
  "resetTurnAfterDelay s = setTimeout TurnReset 200 s"

definition processMatch :: "state \<Rightarrow> state" where
  "processMatch s =
     (let s1 = (case firstCard s of Some f \<Rightarrow> setMatched f s | None \<Rightarrow> s);
          s2 = (case secondCard s1 of Some g \<Rightarrow> setMatched g s1 | None \<Rightarrow> s1);
          s3 = s2\<lparr>pairsMatched := pairsMatched s2 + 1\<rparr>
      in resetTurnAfterDelay s3)"

text \<open>The body of the timeout of \<open>processMismatch\<close> (lines 385-387).\<close>

definition processMismatch_timeout :: "state \<Rightarrow> state" where
  "processMismatch_timeout s =
     (let s1 = (case firstCard s of Some f \<Rightarrow> setFlipped False f s | None \<Rightarrow> s);
          s2 = (case secondCard s1 of Some g \<Rightarrow> setFlipped False g s1 | None \<Rightarrow> s1)
      in resetTurnAfterDelay s2)"

definition processMismatch :: "state \<Rightarrow> state" where
  "processMismatch s = setTimeout MismatchShow 1000 s"

text \<open>
  \<open>checkForMatch\<close> is only called with both cards set (line 349); with one missing the
  script would throw before changing anything, which the model renders as no change.
\<close>

definition checkForMatch :: "state \<Rightarrow> state" where
  "checkForMatch s =
     (case (firstCard s, secondCard s) of
        (Some f, Some g) \<Rightarrow>
          if pokemonId (cards s f) = pokemonId (cards s g) then processMatch s
          else processMismatch s
      | _ \<Rightarrow> s)"

definition handleCardClick :: "elem \<Rightarrow> state \<Rightarrow> state" where
  "handleCardClick e s =
     (if \<not> gameActive s \<or> lockBoard s \<or> flipped (cards s e) \<or> matched (cards s e) then s
      else
        let s1 = (if \<not> srcSet (cards s e) then setSrc e s else s);
            s2 = s1\<lparr>clicks := clicks s1 + 1\<rparr>;
            s3 = setFlipped True e s2
        in case firstCard s3 of
             None \<Rightarrow> s3\<lparr>firstCard := Some e\<rparr>
           | Some f \<Rightarrow>
               if cardId (cards s3 e) = cardId (cards s3 f)
               then (let s4 = setFlipped False e s3 in s4\<lparr>clicks := clicks s4 - 1\<rparr>)
               else checkForMatch (s3\<lparr>secondCard := Some e, lockBoard := True\<rparr>))"

subsection \<open>The timer (lines 426-439)\<close>

text \<open>The body of the interval.\<close>

definition startTimer_interval :: "state \<Rightarrow> state" where
  "startTimer_interval s =
     (let s1 = s\<lparr>timeLeft := timeLeft s - 1\<rparr>
      in if timeLeft s1 \<le> 0 \<and> gameActive s1 then endGame False s1 else s1)"

definition startTimer :: "state \<Rightarrow> state" where
  "startTimer s = s\<lparr>timerInterval := Some (now s + 1000)\<rparr>"

subsection \<open>The power-up (lines 524-593)\<close>

text \<open>The body of the timeout of \<open>executePowerUpReveal\<close> (lines 577-591).\<close>

definition executePowerUpReveal_timeout :: "elem list \<Rightarrow> state \<Rightarrow> state" where
  "executePowerUpReveal_timeout cardsArray s =
     (let keep = (\<lambda>e. case firstCard s of
                         Some f \<Rightarrow> cardId (cards s e) = cardId (cards s f)
                       | None \<Rightarrow> False);
          s1 = s\<lparr>cards := (\<lambda>e. if e \<in> set cardsArray \<and> \<not> keep e \<and> \<not> matched (cards s e)
                                then (cards s e)\<lparr>flipped := False\<rparr> else cards s e)\<rparr>
      in s1\<lparr>lockBoard := (firstCard s1 \<noteq> None \<and> secondCard s1 = None)\<rparr>)"

definition executePowerUpReveal :: "elem list \<Rightarrow> state \<Rightarrow> state" where
  "executePowerUpReveal cardsArray s =
     (let s1 = s\<lparr>cards := (\<lambda>e. if e \<in> set cardsArray
                                then (cards s e)\<lparr>flipped := True\<rparr> else cards s e)\<rparr>
      in setTimeout (PowerUpConceal cardsArray) 2000 s1)"

definition powerUpButton_click :: "state \<Rightarrow> state" where
  "powerUpButton_click s =
     (if \<not> gameActive s \<or> lockBoard s \<or> powerUpUsedThisGame s then s
      else
        let s1 = s\<lparr>powerUpUsedThisGame := True, powerUpDisabled := True, lockBoard := True\<rparr>;
            unmatchedCards = filter (\<lambda>e. \<not> matched (cards s1 e)) (gameGrid s1);
            toLoad = filter (\<lambda>e. \<not> srcSet (cards s1 e)) unmatchedCards;
            s2 = s1\<lparr>cards := (\<lambda>e. if e \<in> set toLoad
                                    then (cards s1 e)\<lparr>srcSet := True\<rparr> else cards s1 e)\<rparr>
        in if toLoad = [] then executePowerUpReveal unmatchedCards s2
           else s2\<lparr>gates := gates s2 @
                      [\<lparr>imagesToLoad = int (length toLoad),
                        cardsToVisuallyFlip = unmatchedCards,
                        waiting = toLoad\<rparr>]\<rparr>)"

text \<open>
  The \<open>load\<close> or \<open>error\<close> event of the image of card \<open>e\<close>: the one-shot handler of
  lines 548-555 runs in every closure that registered one on this image.
\<close>

fun fireLoadHandlers :: "elem \<Rightarrow> gate list \<Rightarrow> state \<Rightarrow> gate list \<times> state" where
  "fireLoadHandlers e [] s = ([], s)"
| "fireLoadHandlers e (g # gs) s =
     (if e \<in> set (waiting g) then
        let g' = g\<lparr>imagesToLoad := imagesToLoad g - 1, waiting := removeAll e (waiting g)\<rparr>;
            s' = (if imagesToLoad g' = 0
                  then executePowerUpReveal (cardsToVisuallyFlip g') s else s);
            r = fireLoadHandlers e gs s'
        in (if waiting g' = [] then fst r else g' # fst r, snd r)
      else
        let r = fireLoadHandlers e gs s in (g # fst r, snd r))"

definition imageSettled :: "elem \<Rightarrow> state \<Rightarrow> state" where
  "imageSettled e s =
     (let r = fireLoadHandlers e (gates s) s in (snd r)\<lparr>gates := fst r\<rparr>)"

subsection \<open>The catalogue (lines 100-172)\<close>

text \<open>
  \<open>response\<close> is what the request of line 108 brings: \<open>None\<close> when it fails or has no
  \<open>results\<close>, else the entries that the \<open>map\<close> of lines 117-130 does not turn into
  \<open>null\<close>. The request is only made while the cache is empty. The model runs the
  \<open>await\<close> to its end in one step, which is what happens when the cache is filled; no
  other event is placed between the request and its answer.
\<close>

definition fetchAllPokemonListOnce ::
    "pokemon list option \<Rightarrow> state \<Rightarrow> pokemon list option \<times> state" where
  "fetchAllPokemonListOnce response s =
     (if allPokemonList s \<noteq> [] then (Some (allPokemonList s), s)
      else
        let s1 = s\<lparr>messageArea := FetchingData\<rparr>
        in case response of
             None \<Rightarrow> (None, s1\<lparr>messageArea := ApiError\<rparr>)
           | Some results \<Rightarrow>
               let s2 = s1\<lparr>allPokemonList :=
                          filter (\<lambda>p. 0 < p_id p \<and> p_id p \<le> MAX_POKEMON_ID_FOR_ARTWORK
                                       \<and> p_imageUrl p \<noteq> []) results\<rparr>
               in if allPokemonList s2 = [] then (None, s2\<lparr>messageArea := ApiError\<rparr>)
                  else (Some (allPokemonList s2), s2\<lparr>messageArea := DataLoaded\<rparr>))"

text \<open>
  \<open>selectRandomPokemonForGame\<close>: an error of the fetch is caught and gives the empty
  list (lines 168-171).
\<close>

definition selectRandomPokemonForGame ::
    "int \<Rightarrow> nat list \<Rightarrow> pokemon list option \<Rightarrow> state \<Rightarrow> pokemon list \<times> state" where
  "selectRandomPokemonForGame cnt rs response s =
     (case fetchAllPokemonListOnce response s of
        (None, s1) \<Rightarrow> ([], s1)
      | (Some availablePokemon, s1) \<Rightarrow>
          if availablePokemon = [] then ([], s1)
          else if int (length availablePokemon) < cnt
          then (take (length availablePokemon) (shuffle rs availablePokemon),
                s1\<lparr>numPairs := int (length availablePokemon)\<rparr>)
          else (take (nat cnt) (shuffle rs availablePokemon), s1))"

subsection \<open>initializeGame (lines 181-297)\<close>

definition falsyName :: "string option \<Rightarrow> bool" where
  "falsyName n = (n = None \<or> n = Some [])"

text \<open>Lines 231-241: two entries for each Pokemon whose data is complete.\<close>

definition cardsDataOf :: "pokemon list \<Rightarrow> (pokemon \<times> copy) list" where
  "cardsDataOf selectedPokemon =
     concat (map (\<lambda>p. if p_imageUrl p = [] \<or> falsyName (p_name p) then []
                       else [(p, CopyA), (p, CopyB)]) selectedPokemon)"

definition newCard :: "pokemon \<Rightarrow> copy \<Rightarrow> card" where
  "newCard p c = \<lparr>pokemonId = p_id p, cardCopy = c, flipped = False, matched = False,
                  srcSet = False\<rparr>"

text \<open>Lines 253-279: one new element for each entry whose data is complete.\<close>

fun appendCards :: "(pokemon \<times> copy) list \<Rightarrow> state \<Rightarrow> state" where
  "appendCards [] s = s"
| "appendCards ((p, c) # ds) s =
     appendCards ds
       (if p_imageUrl p = [] \<or> falsyName (p_name p) then s
        else s\<lparr>cards := (cards s)(nextElem s := newCard p c),
               gameGrid := gameGrid s @ [nextElem s],
               nextElem := nextElem s + 1\<rparr>)"

definition initializeGame ::
    "pokemon list option \<Rightarrow> nat list \<Rightarrow> nat list \<Rightarrow> state \<Rightarrow> state" where
  "initializeGame response rs1 rs2 s =
     (let s1 = s\<lparr>gameActive := True, lockBoard := False, powerUpUsedThisGame := False,
                 powerUpDisabled := False, clicks := 0, pairsMatched := 0,
                 firstCard := None, secondCard := None\<rparr>;
          s2 = updateGameConfig (clearInterval s1);
          s3 = s2\<lparr>messageArea := LoadingCards, gameGrid := []\<rparr>;
          r = selectRandomPokemonForGame (numPairs s3) rs1 response s3;
          selectedPokemon = fst r;
          s4 = snd r
      in if selectedPokemon = [] then
           s4\<lparr>messageArea := (if messageArea s4 = LoadingCards then NoPokemonData
                               else messageArea s4),
              gameActive := False, powerUpDisabled := True\<rparr>
         else
           let cardsData = cardsDataOf selectedPokemon
           in if cardsData = [] then s4\<lparr>messageArea := CardDataError\<rparr>
              else
                let s5 = appendCards (shuffle rs2 cardsData) s4
                in if gameGrid s5 = [] then s5\<lparr>messageArea := CardDisplayError\<rparr>
                   else (startTimer (s5\<lparr>timeLeft := totalTime s5\<rparr>))
                          \<lparr>messageArea := MatchEmAll\<rparr>)"

subsection \<open>The other handlers and the page load\<close>

text \<open>The change handler of the difficulty selector (lines 507-516).\<close>

definition difficultySelect_change :: "difficulty \<Rightarrow> state \<Rightarrow> state" where
  "difficultySelect_change d s =
     (let s1 = updateGameConfig (s\<lparr>difficultySelect := d\<rparr>)
      in if \<not> gameActive s1 then s1\<lparr>messageArea := ModeSetStart\<rparr> else s1)"

text \<open>
  The state after the script has run (lines 38-59 and 600-607): the selector shows
  Medium, the power-up button is disabled in the markup, and the list has been
  fetched once.
\<close>

definition initialState :: "pokemon list option \<Rightarrow> state" where
  "initialState response =
     snd (fetchAllPokemonListOnce response
       (updateGameConfig
          \<lparr>currentDifficulty = Medium, numPairs = 0, totalTime = 0,
           firstCard = None, secondCard = None, lockBoard = False, gameActive = False,
           clicks = 0, pairsMatched = 0, timeLeft = 0, timerInterval = None,
           powerUpUsedThisGame = False, allPokemonList = [], difficultySelect = Medium,
           cards = (\<lambda>e. \<lparr>pokemonId = 0, cardCopy = CopyA, flipped = False,
                          matched = False, srcSet = False\<rparr>),
           nextElem = 0, gameGrid = [], powerUpDisabled = True,
           messageArea = SelectModeAndStart, alerts = [], now = 0, timeouts = [],
           gates = []\<rparr>))"

subsection \<open>The event loop\<close>

text \<open>
  \<open>TimeoutFires i\<close> runs the pending timeout at position \<open>i\<close>, \<open>IntervalTick\<close> the body
  of the interval, \<open>Wait d\<close> lets \<open>d\<close> milliseconds pass. The other events come from
  the player and from images that finish loading.
\<close>

datatype event =
    CardClick elem
  | StartOrReset "pokemon list option" "nat list" "nat list"
  | DifficultyChange difficulty
  | PowerUpClick
  | ImageSettled elem
  | TimeoutFires nat
  | IntervalTick
  | Wait nat

fun runCallback :: "callback \<Rightarrow> state \<Rightarrow> state" where
  "runCallback MismatchShow s = processMismatch_timeout s"
| "runCallback TurnReset s = resetTurnAfterDelay_timeout s"
| "runCallback (PowerUpConceal cardsArray) s = executePowerUpReveal_timeout cardsArray s"
| "runCallback WinAlert s = s\<lparr>alerts := alerts s @ [Congratulations]\<rparr>"
| "runCallback LoseAlert s = s\<lparr>alerts := alerts s @ [TimesUp]\<rparr>"

fun handle :: "event \<Rightarrow> state \<Rightarrow> state" where
  "handle (CardClick e) s = handleCardClick e s"
| "handle (StartOrReset response rs1 rs2) s = initializeGame response rs1 rs2 s"
| "handle (DifficultyChange d) s = difficultySelect_change d s"
| "handle PowerUpClick s = powerUpButton_click s"
| "handle (ImageSettled e) s = imageSettled e s"
| "handle (TimeoutFires i) s =
     (if i < length (timeouts s) then
        runCallback (snd (timeouts s ! i))
          (s\<lparr>now := max (now s) (fst (timeouts s ! i)),
             timeouts := take i (timeouts s) @ drop (Suc i) (timeouts s)\<rparr>)
      else s)"
| "handle IntervalTick s =
     (case timerInterval s of
        None \<Rightarrow> s
      | Some t \<Rightarrow> startTimer_interval (s\<lparr>now := max (now s) t, timerInterval := Some (t + 1000)\<rparr>))"
| "handle (Wait d) s = s\<lparr>now := now s + d\<rparr>"

text \<open>
  When an event can happen. A click reaches only a card of the grid and only an
  enabled button; a timeout fires when it is the first of those due earliest and the
  interval is not due before it; time passes only up to the next due callback.
\<close>

definition notBefore :: "nat \<Rightarrow> state \<Rightarrow> bool" where
  "notBefore t s =
     (list_all (\<lambda>p. t \<le> fst p) (timeouts s) \<and>
      (case timerInterval s of None \<Rightarrow> True | Some u \<Rightarrow> t \<le> u))"

fun enabled :: "event \<Rightarrow> state \<Rightarrow> bool" where
  "enabled (CardClick e) s = (e \<in> set (gameGrid s))"
| "enabled (StartOrReset response rs1 rs2) s = True"
| "enabled (DifficultyChange d) s = True"
| "enabled PowerUpClick s = (\<not> powerUpDisabled s)"
| "enabled (ImageSettled e) s = srcSet (cards s e)"
| "enabled (TimeoutFires i) s =
     (i < length (timeouts s) \<and> notBefore (fst (timeouts s ! i)) s \<and>
      list_all (\<lambda>p. fst p \<noteq> fst (timeouts s ! i)) (take i (timeouts s)))"
| "enabled IntervalTick s =
     (case timerInterval s of None \<Rightarrow> False | Some t \<Rightarrow> notBefore t s)"
| "enabled (Wait d) s = notBefore (now s + d) s"

definition step :: "event \<Rightarrow> state \<Rightarrow> state option" where
  "step ev s = (if enabled ev s then Some (handle ev s) else None)"

fun run :: "event list \<Rightarrow> state \<Rightarrow> state option" where
  "run [] s = Some s"
| "run (ev # evs) s = (case step ev s of None \<Rightarrow> None | Some s' \<Rightarrow> run evs s')"

inductive reachable :: "state \<Rightarrow> bool" where
  reachable_init: "reachable (initialState response)"
| reachable_step: "reachable s \<Longrightarrow> step ev s = Some s' \<Longrightarrow> reachable s'"

subsection \<open>Sequences of events, signals and sample data\<close>

text \<open>
  \<open>handleAll\<close> runs the handlers of a list of events one after the other, whether or
  not the event loop would deliver them in this order: what holds for it holds for
  every run.
\<close>

fun noRestart :: "event \<Rightarrow> bool" where
  "noRestart (StartOrReset response rs1 rs2) = False"
| "noRestart ev = True"

definition handleAll :: "event list \<Rightarrow> state \<Rightarrow> state" where
  "handleAll evs s = fold handle evs s"

text \<open>\<open>feasible\<close> tells whether the event loop can deliver the events in this order.\<close>

fun feasible :: "event list \<Rightarrow> state \<Rightarrow> bool" where
  "feasible [] s = True"
| "feasible (ev # evs) s = (enabled ev s \<and> feasible evs (handle ev s))"

text \<open>
  The win branch of \<open>endGame\<close> (lines 476-483) and its timeout branch (lines 486-494)
  each schedule one alert, which is later shown. The signals given so far are the
  alerts that are scheduled or shown.
\<close>

definition winSignals :: "state \<Rightarrow> nat" where
  "winSignals s =
     length (filter (\<lambda>p. snd p = WinAlert) (timeouts s)) +
     length (filter (\<lambda>a. a = Congratulations) (alerts s))"

definition expirySignals :: "state \<Rightarrow> nat" where
  "expirySignals s =
     length (filter (\<lambda>p. snd p = LoseAlert) (timeouts s)) +
     length (filter (\<lambda>a. a = TimesUp) (alerts s))"

text \<open>The cards of the grid, in order.\<close>

definition deck :: "state \<Rightarrow> card list" where
  "deck s = map (cards s) (gameGrid s)"


definition deckView :: "state \<Rightarrow> (nat \<times> string) list" where
  "deckView s = map (\<lambda>c. (pokemonId c, cardId c)) (deck s)"

text \<open>
  The path condition of the branch of lines 340-345 in \<open>handleCardClick\<close>: the guard
  of line 313 lets the click through, a first card is pending, and the card ids agree.
\<close>

definition revertBranchTaken :: "elem \<Rightarrow> state \<Rightarrow> bool" where
  "revertBranchTaken e s =
     (gameActive s \<and> \<not> lockBoard s \<and> \<not> flipped (cards s e) \<and> \<not> matched (cards s e) \<and>
      (case firstCard s of
         None \<Rightarrow> False
       | Some f \<Rightarrow> cardId (cards s e) = cardId (cards s f)))"

text \<open>
  What the player can see of a state: the flags, the pending pair, the counters, the
  signals given, the clock with the pending callbacks, and the listed cards with id,
  \<open>flipped\<close> and \<open>matched\<close>.
\<close>

definition view ::
    "state \<Rightarrow> elem list \<Rightarrow>
     (bool \<times> bool) \<times> (elem option \<times> elem option) \<times> (int \<times> int \<times> int) \<times>
     (nat \<times> nat) \<times> (nat \<times> (nat \<times> callback) list) \<times> (string \<times> bool \<times> bool) list" where
  "view s es =
     ((gameActive s, lockBoard s), (firstCard s, secondCard s),
      (clicks s, pairsMatched s, numPairs s), (winSignals s, expirySignals s),
      (now s, timeouts s),
      map (\<lambda>e. (cardId (cards s e), flipped (cards s e), matched (cards s e))) es)"

text \<open>A catalogue of three entries, and the page after it has been loaded.\<close>

definition catalogue3 :: "pokemon list" where
  "catalogue3 =
     [\<lparr>p_name = Some ''bulbasaur'', p_id = 1, p_imageUrl = ''1.png''\<rparr>,
      \<lparr>p_name = Some ''ivysaur'', p_id = 2, p_imageUrl = ''2.png''\<rparr>,
      \<lparr>p_name = Some ''venusaur'', p_id = 3, p_imageUrl = ''3.png''\<rparr>]"

definition page :: state where
  "page = initialState (Some catalogue3)"

text \<open>
  An easy game on that page with the cards left in the order of the catalogue: the
  elements 0 to 5 carry the ids 1-a, 1-b, 2-a, 2-b, 3-a, 3-b.
\<close>

definition startEasy :: "event list" where
  "startEasy = [DifficultyChange Easy, StartOrReset None [] []]"

definition easyGame :: state where
  "easyGame = handleAll startEasy page"

text \<open>
  The easy game with the first two pairs found, then with the last pair selected, and
  after the settle callback of that turn.
\<close>

definition twoPairsFound :: "event list" where
  "twoPairsFound = startEasy @
     [CardClick 0, Wait 100, CardClick 1, Wait 200, TimeoutFires 0,
      CardClick 2, Wait 100, CardClick 3, Wait 200, TimeoutFires 0]"

definition twoPairs :: state where
  "twoPairs = handleAll twoPairsFound page"

definition lastPairSelected :: state where
  "lastPairSelected = handle (CardClick 5) (handle (Wait 100) (handle (CardClick 4) twoPairs))"

definition lastPairSettled :: state where
  "lastPairSettled = handle (TimeoutFires (length (timeouts twoPairs))) lastPairSelected"

text \<open>
  A mismatch at the start of the easy game: the tiles 1-a and 2-a selected 100 ms
  apart, then the show callback, then the settle callback.
\<close>

definition mismatchSelected :: state where
  "mismatchSelected = handle (CardClick 2) (handle (Wait 100) (handle (CardClick 0) easyGame))"

definition mismatchShown :: state where
  "mismatchShown = handle (TimeoutFires (length (timeouts easyGame))) mismatchSelected"

definition mismatchSettled :: state where
  "mismatchSettled = handle (TimeoutFires (length (timeouts easyGame))) mismatchShown"

text \<open>
  The power-up used in the easy game while the tile 1-a is the pending first
  selection: the other five images load, the reveal runs, and two seconds pass.
\<close>

definition revealTrace :: "event list" where
  "revealTrace =
     [CardClick 0, PowerUpClick, ImageSettled 1, ImageSettled 2, ImageSettled 3,
      ImageSettled 4, ImageSettled 5, Wait 1000, IntervalTick, Wait 1000]"

definition revealed :: state where
  "revealed = handleAll revealTrace easyGame"

text \<open>
  An easy game on the page with both lists shuffled, and an easy game on a page whose
  catalogue holds the id 7 twice.
\<close>

definition shuffledGame :: state where
  "shuffledGame = initializeGame None [1, 1] [4, 4, 2, 0] (handle (DifficultyChange Easy) page)"

definition twins :: "pokemon list" where
  "twins =
     [\<lparr>p_name = Some ''ditto'', p_id = 7, p_imageUrl = ''7.png''\<rparr>,
      \<lparr>p_name = Some ''ditto-two'', p_id = 7, p_imageUrl = ''7.png''\<rparr>]"

definition twinsGame :: state where
  "twinsGame = handleAll startEasy (initialState (Some twins))"

text \<open>
  A mismatch at the start of the easy game and, 500 ms later, a new game: its cards
  are the elements 6 to 11. Then two turns of the new game that meet the callbacks of
  the old one.
\<close>

definition restarted :: "event list" where
  "restarted = startEasy @ [CardClick 0, CardClick 2, Wait 500, StartOrReset None [] []]"

definition secondGameTurn :: "event list" where
  "secondGameTurn = restarted @ [Wait 100, CardClick 6, Wait 300, CardClick 8, Wait 100]"

definition staleShowFired :: "event list" where
  "staleShowFired = secondGameTurn @ [TimeoutFires 0]"

definition staleSettleFired :: "event list" where
  "staleSettleFired = staleShowFired @ [Wait 200, TimeoutFires 1]"

definition pendingTurnedDown :: "event list" where
  "pendingTurnedDown = restarted @ [Wait 100, CardClick 6, Wait 400, TimeoutFires 0, Wait 100]"


section \<open>Properties\<close>

subsection \<open>The game stays over until a new one is started\<close>

lemmas turn_defs = setFlipped_def setMatched_def setSrc_def setTimeout_def clearInterval_def
  resetTurnAfterDelay_def processMatch_def processMismatch_def checkForMatch_def
  processMismatch_timeout_def resetTurnAfterDelay_timeout_def endGame_def


lemma endGame_ends: "\<not> gameActive (endGame w s)"
  by (simp add: endGame_def Let_def setTimeout_def clearInterval_def)

lemma handleCardClick_inactive: "\<not> gameActive s \<Longrightarrow> handleCardClick e s = s"
  by (simp add: handleCardClick_def)

lemma gameActive_executePowerUpReveal [simp]:
  "gameActive (executePowerUpReveal cs s) = gameActive s"
  by (simp add: executePowerUpReveal_def setTimeout_def)

lemma gameActive_fireLoadHandlers [simp]:
  "gameActive (snd (fireLoadHandlers e gs s)) = gameActive s"
  by (induction gs arbitrary: s) (simp_all add: Let_def)

lemma gameActive_runCallback: "gameActive (runCallback cb s) \<Longrightarrow> gameActive s"
  by (cases cb)
     (auto simp: turn_defs executePowerUpReveal_timeout_def Let_def
           split: option.splits if_splits)

lemma gameActive_handle: "noRestart ev \<Longrightarrow> gameActive (handle ev s) \<Longrightarrow> gameActive s"
proof (cases ev)
  case (TimeoutFires i)
  then show "gameActive (handle ev s) \<Longrightarrow> gameActive s"
    by (auto dest: gameActive_runCallback split: if_splits)
next
  case IntervalTick
  then show "gameActive (handle ev s) \<Longrightarrow> gameActive s"
    by (auto simp: startTimer_interval_def endGame_def Let_def clearInterval_def
          setTimeout_def split: option.splits if_splits)
next
  case (CardClick e)
  then show "gameActive (handle ev s) \<Longrightarrow> gameActive s"
    by (cases "gameActive s") (auto simp: handleCardClick_inactive)
qed (auto simp: difficultySelect_change_def updateGameConfig_def
      powerUpButton_click_def imageSettled_def Let_def split: if_splits)

lemma inactive_handleAll:
  "\<not> gameActive s \<Longrightarrow> list_all noRestart evs \<Longrightarrow> \<not> gameActive (handleAll evs s)"
  unfolding handleAll_def
  by (induction evs arbitrary: s) (auto dest: gameActive_handle)

subsection \<open>What the handlers leave alone\<close>

lemma appendCards_frame [simp]:
  shows "timeouts (appendCards ds s) = timeouts s"
    and "alerts (appendCards ds s) = alerts s"
    and "gates (appendCards ds s) = gates s"
    and "now (appendCards ds s) = now s"
    and "gameActive (appendCards ds s) = gameActive s"
    and "lockBoard (appendCards ds s) = lockBoard s"
    and "firstCard (appendCards ds s) = firstCard s"
    and "secondCard (appendCards ds s) = secondCard s"
    and "clicks (appendCards ds s) = clicks s"
    and "pairsMatched (appendCards ds s) = pairsMatched s"
    and "timerInterval (appendCards ds s) = timerInterval s"
    and "timeLeft (appendCards ds s) = timeLeft s"
    and "totalTime (appendCards ds s) = totalTime s"
    and "numPairs (appendCards ds s) = numPairs s"
    and "powerUpUsedThisGame (appendCards ds s) = powerUpUsedThisGame s"
    and "allPokemonList (appendCards ds s) = allPokemonList s"
    and "difficultySelect (appendCards ds s) = difficultySelect s"
  by (induction ds s rule: appendCards.induct) simp_all

lemmas init_defs = initializeGame_def selectRandomPokemonForGame_def
  fetchAllPokemonListOnce_def updateGameConfig_def clearInterval_def startTimer_def



lemma executePowerUpReveal_frame [simp]:
  shows "alerts (executePowerUpReveal cs s) = alerts s"
    and "timeouts (executePowerUpReveal cs s) = timeouts s @ [(now s + 2000, PowerUpConceal cs)]"
    and "lockBoard (executePowerUpReveal cs s) = lockBoard s"
    and "firstCard (executePowerUpReveal cs s) = firstCard s"
    and "secondCard (executePowerUpReveal cs s) = secondCard s"
    and "clicks (executePowerUpReveal cs s) = clicks s"
    and "pairsMatched (executePowerUpReveal cs s) = pairsMatched s"
    and "timerInterval (executePowerUpReveal cs s) = timerInterval s"
    and "timeLeft (executePowerUpReveal cs s) = timeLeft s"
    and "numPairs (executePowerUpReveal cs s) = numPairs s"
    and "powerUpUsedThisGame (executePowerUpReveal cs s) = powerUpUsedThisGame s"
    and "now (executePowerUpReveal cs s) = now s"
  by (simp_all add: executePowerUpReveal_def setTimeout_def)

lemma fireLoadHandlers_frame [simp]:
  shows "alerts (snd (fireLoadHandlers e gs s)) = alerts s"
    and "lockBoard (snd (fireLoadHandlers e gs s)) = lockBoard s"
    and "firstCard (snd (fireLoadHandlers e gs s)) = firstCard s"
    and "secondCard (snd (fireLoadHandlers e gs s)) = secondCard s"
    and "clicks (snd (fireLoadHandlers e gs s)) = clicks s"
    and "pairsMatched (snd (fireLoadHandlers e gs s)) = pairsMatched s"
    and "timerInterval (snd (fireLoadHandlers e gs s)) = timerInterval s"
    and "timeLeft (snd (fireLoadHandlers e gs s)) = timeLeft s"
    and "numPairs (snd (fireLoadHandlers e gs s)) = numPairs s"
    and "powerUpUsedThisGame (snd (fireLoadHandlers e gs s)) = powerUpUsedThisGame s"
    and "now (snd (fireLoadHandlers e gs s)) = now s"
  by (induction gs arbitrary: s) (simp_all add: Let_def)

subsection \<open>Counting the signals\<close>


lemma fireLoadHandlers_signals [simp]:
  shows "filter (\<lambda>p. snd p = LoseAlert) (timeouts (snd (fireLoadHandlers e gs s))) =
         filter (\<lambda>p. snd p = LoseAlert) (timeouts s)"
    and "filter (\<lambda>p. snd p = WinAlert) (timeouts (snd (fireLoadHandlers e gs s))) =
         filter (\<lambda>p. snd p = WinAlert) (timeouts s)"
  by (induction gs arbitrary: s) (simp_all add: Let_def)


lemma expirySignals_handleCardClick [simp]:
  "expirySignals (handleCardClick e s) = expirySignals s"
  by (simp add: handleCardClick_def expirySignals_def turn_defs Let_def split: option.splits)


subsection \<open>Card ids are distinct for distinct cards of a deck\<close>


lemma digit_values:
  shows "digit 0 = CHR ''0''" and "digit 1 = CHR ''1''" and "digit 2 = CHR ''2''"
    and "digit 3 = CHR ''3''" and "digit 4 = CHR ''4''" and "digit 5 = CHR ''5''"
    and "digit 6 = CHR ''6''" and "digit 7 = CHR ''7''" and "digit 8 = CHR ''8''"
    and "digit 9 = CHR ''9''" and "digit (Suc 0) = CHR ''1''"
  by code_simp+

lemma show_nat_small: "n < 10 \<Longrightarrow> show_nat n = [digit n]"
  by (simp add: show_nat.simps)






subsection \<open>Runs of the event loop\<close>

lemma feasible_run: "feasible evs s \<Longrightarrow> run evs s = Some (handleAll evs s)"
  by (induction evs arbitrary: s) (simp_all add: handleAll_def step_def)

lemma feasible_reachable: "feasible evs s \<Longrightarrow> reachable s \<Longrightarrow> reachable (handleAll evs s)"
proof (induction evs arbitrary: s)
  case Nil
  then show ?case by (simp add: handleAll_def)
next
  case (Cons ev evs)
  from Cons.prems have "step ev s = Some (handle ev s)"
    by (simp add: step_def)
  with Cons.prems have "reachable (handle ev s)"
    by (blast intro: reachable_step)
  with Cons show ?case by (simp add: handleAll_def)
qed





lemma reachable_page: "reachable page"
  unfolding page_def by (rule reachable_init)

subsection \<open>While the interval runs the game is active and time is left\<close>









subsection \<open>The sample games\<close>

lemmas eval_defs = startEasy_def page_def catalogue3_def initialState_def initializeGame_def
  selectRandomPokemonForGame_def fetchAllPokemonListOnce_def updateGameConfig_def
  clearInterval_def startTimer_def notBefore_def cardsDataOf_def falsyName_def newCard_def
  startTimer_interval_def endGame_def difficultySelect_change_def
  MAX_POKEMON_ID_FOR_ARTWORK_def Let_def handleCardClick_def setFlipped_def setMatched_def
  setSrc_def setTimeout_def resetTurnAfterDelay_def processMatch_def processMismatch_def
  checkForMatch_def processMismatch_timeout_def resetTurnAfterDelay_timeout_def cardId_def
  show_nat_small digit_values handleAll_def powerUpButton_click_def executePowerUpReveal_def
  executePowerUpReveal_timeout_def imageSettled_def easyGame_def view_def winSignals_def
  expirySignals_def twoPairsFound_def twoPairs_def lastPairSelected_def lastPairSettled_def
  mismatchSelected_def mismatchShown_def mismatchSettled_def revealTrace_def revealed_def
  deck_def deckView_def shuffledGame_def twins_def twinsGame_def restarted_def
  secondGameTurn_def staleShowFired_def staleSettleFired_def pendingTurnedDown_def
  revertBranchTaken_def

lemma feasible_startEasy: "feasible startEasy page"
  by (simp add: eval_defs)

lemma reachable_easyGame: "reachable easyGame"
  unfolding easyGame_def
  using feasible_startEasy reachable_page by (rule feasible_reachable)


subsection \<open>The deck\<close>

lemma mset_shuffle [simp]: "mset (shuffle rs xs) = mset xs"
proof (induction rs xs rule: shuffle.induct)
  case (3 r rs x xs)
  let ?ys = "x # xs"
  let ?i = "r mod length ?ys"
  have i: "?i < length ?ys" by simp
  then have "?ys = take ?i ?ys @ ?ys ! ?i # drop (Suc ?i) ?ys"
    by (rule id_take_nth_drop)
  then have "mset ?ys = mset (take ?i ?ys @ ?ys ! ?i # drop (Suc ?i) ?ys)"
    by simp
  also have "\<dots> = add_mset (?ys ! ?i) (mset (take ?i ?ys @ drop (Suc ?i) ?ys))"
    by simp
  finally show ?case
    using "3.IH" [of ?i] by (simp add: Let_def)
qed simp_all

lemma length_shuffle [simp]: "length (shuffle rs xs) = length xs"
  using mset_shuffle [of rs xs] by (metis size_mset)

lemma set_shuffle [simp]: "set (shuffle rs xs) = set xs"
  using mset_shuffle [of rs xs] by (metis set_mset_mset)

lemma distinct_map_shuffle [simp]: "distinct (map f (shuffle rs xs)) = distinct (map f xs)"
proof -
  have "mset (map f (shuffle rs xs)) = mset (map f xs)"
    by simp
  then show ?thesis
    by (rule mset_eq_imp_distinct_iff)
qed

lemma filter_length_shuffle [simp]:
  "length (filter P (shuffle rs xs)) = length (filter P xs)"
proof -
  have "mset (filter P (shuffle rs xs)) = mset (filter P xs)"
    by simp
  then show ?thesis
    by (metis size_mset)
qed







lemma deck_frame [simp]:
  shows "deck (s\<lparr>messageArea := m\<rparr>) = deck s"
    and "deck (s\<lparr>timeLeft := t\<rparr>) = deck s"
    and "deck (s\<lparr>timerInterval := i\<rparr>) = deck s"
    and "deck (s\<lparr>gameActive := b\<rparr>) = deck s"
    and "deck (s\<lparr>powerUpDisabled := b\<rparr>) = deck s"
    and "deck (s\<lparr>numPairs := n\<rparr>) = deck s"
    and "deck (s\<lparr>allPokemonList := l\<rparr>) = deck s"
  by (simp_all add: deck_def)

text \<open>The catalogue that a start of the game leaves in the cache.\<close>

lemma initializeGame_catalogue:
  "allPokemonList (initializeGame response rs1 rs2 s) =
     (if allPokemonList s \<noteq> [] then allPokemonList s
      else case response of
             None \<Rightarrow> []
           | Some results \<Rightarrow>
               filter (\<lambda>p. 0 < p_id p \<and> p_id p \<le> MAX_POKEMON_ID_FOR_ARTWORK
                            \<and> p_imageUrl p \<noteq> []) results)"
  by (simp add: initializeGame_def selectRandomPokemonForGame_def fetchAllPokemonListOnce_def
        updateGameConfig_def clearInterval_def startTimer_def Let_def split: option.splits)



subsection \<open>The two selections of a turn\<close>

lemma cardId_update [simp]:
  shows "cardId (c\<lparr>flipped := x\<rparr>) = cardId c"
    and "cardId (c\<lparr>matched := x\<rparr>) = cardId c"
    and "cardId (c\<lparr>srcSet := x\<rparr>) = cardId c"
  by (simp_all add: cardId_def)

lemma srcSet_again: "srcSet c \<Longrightarrow> c\<lparr>srcSet := True\<rparr> = c"
  by (cases c) simp

text \<open>The first selection of a turn (lines 317-335).\<close>

lemma first_selection:
  assumes "gameActive s" and "\<not> lockBoard s" and "firstCard s = None"
    and "\<not> flipped (cards s a)" and "\<not> matched (cards s a)"
  shows "handleCardClick a s =
         s\<lparr>cards := (cards s)(a := (cards s a)\<lparr>srcSet := True, flipped := True\<rparr>),
           clicks := clicks s + 1, firstCard := Some a\<rparr>"
  using assms
  by (cases "srcSet (cards s a)") (simp_all add: handleCardClick_def turn_defs Let_def srcSet_again)


lemma fire_last:
  "handle (TimeoutFires (length ts)) (s\<lparr>timeouts := ts @ [(t, cb)]\<rparr>) =
   runCallback cb (s\<lparr>now := max (now s) t, timeouts := ts\<rparr>)"
  by simp

subsection \<open>Counting the win signals\<close>




subsection \<open>C10: clicks after the end of the game\<close>

text \<open>
  Claim C10. Once \<open>endGame\<close> has run, on a win or on the timeout, the game is inactive,
  and it stays inactive through every later event that is not a new start: timeouts
  that were still pending, ticks, clicks, image loads. In each state on the way a card
  click changes nothing. This holds although the pending callback of
  \<open>resetTurnAfterDelay\<close> sets \<open>lockBoard\<close> back to false when it fires: the guard of
  \<open>handleCardClick\<close> tests \<open>gameActive\<close> on its own.
\<close>

theorem C10_clicks_after_end_are_noops:
  assumes "list_all noRestart evs"
  shows "\<not> gameActive (handleAll evs (endGame w s)) \<and>
         handleCardClick e (handleAll evs (endGame w s)) = handleAll evs (endGame w s) \<and>
         \<not> lockBoard (resetTurnAfterDelay_timeout (endGame w s)) \<and>
         handleCardClick e (resetTurnAfterDelay_timeout (endGame w s)) =
           resetTurnAfterDelay_timeout (endGame w s)"
proof -
  have over: "\<not> gameActive (endGame w s)"
    by (rule endGame_ends)
  have later: "\<not> gameActive (handleAll evs (endGame w s))"
    using over assms by (rule inactive_handleAll)
  have settle: "resetTurnAfterDelay_timeout (endGame w s) =
      (endGame w s)\<lparr>firstCard := None, secondCard := None, lockBoard := False\<rparr>"
    using over by (simp add: resetTurnAfterDelay_timeout_def Let_def)
  have "\<not> gameActive (resetTurnAfterDelay_timeout (endGame w s))"
    using over by (simp add: settle)
  then show ?thesis
    using later by (simp add: handleCardClick_inactive settle)
qed

text \<open>
  The easy game is ended by the timeout, with no time left, while a pair is being
  evaluated; the settle callback of that turn then fires and a card is clicked.
\<close>

theorem C10_clicks_after_end_are_noops_witness:
  "list_all noRestart [TimeoutFires 0, Wait 10] \<and>
   \<not> gameActive (handleAll [TimeoutFires 0, Wait 10]
        (endGame False ((handleAll [CardClick 0, CardClick 1] easyGame)\<lparr>timeLeft := 0\<rparr>))) \<and>
   handleCardClick 2 (handleAll [TimeoutFires 0, Wait 10]
        (endGame False ((handleAll [CardClick 0, CardClick 1] easyGame)\<lparr>timeLeft := 0\<rparr>))) =
     handleAll [TimeoutFires 0, Wait 10]
        (endGame False ((handleAll [CardClick 0, CardClick 1] easyGame)\<lparr>timeLeft := 0\<rparr>)) \<and>
   \<not> lockBoard (resetTurnAfterDelay_timeout
        (endGame False ((handleAll [CardClick 0, CardClick 1] easyGame)\<lparr>timeLeft := 0\<rparr>))) \<and>
   handleCardClick 2 (resetTurnAfterDelay_timeout
        (endGame False ((handleAll [CardClick 0, CardClick 1] easyGame)\<lparr>timeLeft := 0\<rparr>))) =
     resetTurnAfterDelay_timeout
        (endGame False ((handleAll [CardClick 0, CardClick 1] easyGame)\<lparr>timeLeft := 0\<rparr>))"
proof -
  have h: "list_all noRestart [TimeoutFires 0, Wait 10]"
    by simp
  show ?thesis
    using h C10_clicks_after_end_are_noops [OF h, of False
        "(handleAll [CardClick 0, CardClick 1] easyGame)\<lparr>timeLeft := 0\<rparr>" 2]
    by simp
qed

subsection \<open>C8: one power-up in a game\<close>

lemma powerUpUsed_handle:
  "noRestart ev \<Longrightarrow> powerUpUsedThisGame s \<Longrightarrow> powerUpUsedThisGame (handle ev s)"
proof (cases ev)
  case (TimeoutFires i)
  then show "powerUpUsedThisGame s \<Longrightarrow> powerUpUsedThisGame (handle ev s)"
    by (cases "snd (timeouts s ! i)")
       (auto simp: turn_defs executePowerUpReveal_timeout_def Let_def split: option.splits)
next
  case IntervalTick
  then show "powerUpUsedThisGame s \<Longrightarrow> powerUpUsedThisGame (handle ev s)"
    by (auto simp: startTimer_interval_def turn_defs Let_def split: option.splits)
next
  case (CardClick e)
  then show "powerUpUsedThisGame s \<Longrightarrow> powerUpUsedThisGame (handle ev s)"
    by (auto simp: handleCardClick_def turn_defs Let_def split: option.splits)
qed (auto simp: difficultySelect_change_def updateGameConfig_def
      powerUpButton_click_def imageSettled_def Let_def)

lemma powerUpUsed_handleAll:
  "powerUpUsedThisGame s \<Longrightarrow> list_all noRestart evs \<Longrightarrow>
   powerUpUsedThisGame (handleAll evs s)"
  unfolding handleAll_def
  by (induction evs arbitrary: s) (auto dest: powerUpUsed_handle)

text \<open>
  Claim C8. A click on the power-up button changes nothing when the game is inactive,
  when the board is locked, or when the power-up has been used in this game. Otherwise
  it is the first use: it changes the state and sets \<open>powerUpUsedThisGame\<close>. Once set,
  the flag stays set through every event that is not a new start, and in each state on
  the way a further click on the button changes nothing.
\<close>

theorem C8_power_up_once:
  assumes "list_all noRestart evs"
  shows "(\<not> gameActive s \<or> lockBoard s \<or> powerUpUsedThisGame s \<longrightarrow>
            powerUpButton_click s = s) \<and>
         (gameActive s \<and> \<not> lockBoard s \<and> \<not> powerUpUsedThisGame s \<longrightarrow>
            powerUpButton_click s \<noteq> s \<and> powerUpUsedThisGame (powerUpButton_click s)) \<and>
         (powerUpUsedThisGame s \<longrightarrow>
            powerUpUsedThisGame (handleAll evs s) \<and>
            powerUpButton_click (handleAll evs s) = handleAll evs s)"
proof -
  have guard: "\<not> gameActive s \<or> lockBoard s \<or> powerUpUsedThisGame s \<longrightarrow>
            powerUpButton_click s = s"
    by (auto simp: powerUpButton_click_def)
  have first: "gameActive s \<and> \<not> lockBoard s \<and> \<not> powerUpUsedThisGame s \<longrightarrow>
            powerUpButton_click s \<noteq> s \<and> powerUpUsedThisGame (powerUpButton_click s)"
  proof
    assume a: "gameActive s \<and> \<not> lockBoard s \<and> \<not> powerUpUsedThisGame s"
    then have used: "powerUpUsedThisGame (powerUpButton_click s)"
      by (simp add: powerUpButton_click_def Let_def)
    with a have "powerUpButton_click s \<noteq> s"
      by auto
    with used show "powerUpButton_click s \<noteq> s \<and> powerUpUsedThisGame (powerUpButton_click s)"
      by simp
  qed
  have later: "powerUpUsedThisGame s \<longrightarrow>
            powerUpUsedThisGame (handleAll evs s) \<and>
            powerUpButton_click (handleAll evs s) = handleAll evs s"
  proof
    assume "powerUpUsedThisGame s"
    then have "powerUpUsedThisGame (handleAll evs s)"
      using assms by (rule powerUpUsed_handleAll)
    then show "powerUpUsedThisGame (handleAll evs s) \<and>
            powerUpButton_click (handleAll evs s) = handleAll evs s"
      by (simp add: powerUpButton_click_def)
  qed
  from guard first later show ?thesis by blast
qed

text \<open>
  On the page before any game the button does nothing. In the easy game the first
  click uses the power-up; after the reveal has been concealed again and a card has
  been clicked, a second click on the button does nothing.
\<close>

theorem C8_power_up_once_witness:
  "powerUpButton_click page = page \<and>
   powerUpButton_click easyGame \<noteq> easyGame \<and>
   powerUpUsedThisGame (powerUpButton_click easyGame) \<and>
   powerUpUsedThisGame
     (handleAll [ImageSettled 0, TimeoutFires 0, CardClick 0] (powerUpButton_click easyGame)) \<and>
   powerUpButton_click
     (handleAll [ImageSettled 0, TimeoutFires 0, CardClick 0] (powerUpButton_click easyGame)) =
     handleAll [ImageSettled 0, TimeoutFires 0, CardClick 0] (powerUpButton_click easyGame)"
proof -
  have h: "list_all noRestart [ImageSettled 0, TimeoutFires 0, CardClick 0]"
    by simp
  have idle: "\<not> gameActive page"
    by (simp add: eval_defs)
  have fresh: "gameActive easyGame \<and> \<not> lockBoard easyGame \<and> \<not> powerUpUsedThisGame easyGame"
    by (simp add: eval_defs)
  have used: "powerUpUsedThisGame (powerUpButton_click easyGame)"
    using fresh C8_power_up_once [OF h, of easyGame] by blast
  show ?thesis
    using idle fresh used C8_power_up_once [OF h, of page] C8_power_up_once [OF h, of easyGame]
      C8_power_up_once [OF h, of "powerUpButton_click easyGame"]
    by blast
qed

subsection \<open>C5: the timeout\<close>



subsection \<open>C3: the same tile twice\<close>

text \<open>
  Claim C3. In an active, unlocked game with no pending selection, let a face-down,
  unmatched tile be selected and then selected again. The second selection changes
  nothing: the guard of line 313 rejects it because the tile is face up. So the click
  counter has gone up by one, for the first selection only, the tile is face up and is
  the pending first selection, and no evaluation has run: no second card, no lock, no
  pair matched, no callback scheduled.
\<close>

theorem C3_same_tile_twice:
  assumes "gameActive s" and "\<not> lockBoard s" and "firstCard s = None"
    and "\<not> flipped (cards s e)" and "\<not> matched (cards s e)"
  shows "handleCardClick e (handleCardClick e s) = handleCardClick e s \<and>
         clicks (handleCardClick e (handleCardClick e s)) = clicks s + 1 \<and>
         flipped (cards (handleCardClick e (handleCardClick e s)) e) \<and>
         \<not> matched (cards (handleCardClick e (handleCardClick e s)) e) \<and>
         firstCard (handleCardClick e (handleCardClick e s)) = Some e \<and>
         secondCard (handleCardClick e (handleCardClick e s)) = secondCard s \<and>
         \<not> lockBoard (handleCardClick e (handleCardClick e s)) \<and>
         pairsMatched (handleCardClick e (handleCardClick e s)) = pairsMatched s \<and>
         timeouts (handleCardClick e (handleCardClick e s)) = timeouts s"
proof -
  note first = first_selection [OF assms]
  have again: "handleCardClick e (handleCardClick e s) = handleCardClick e s"
    by (simp add: first) (simp add: handleCardClick_def)
  show ?thesis
    unfolding again using assms by (simp add: first)
qed

text \<open>The tile 1-a at the start of the easy game.\<close>

theorem C3_same_tile_twice_witness:
  "view easyGame [0] =
     ((True, False), (None, None), (0, 0, 3), (0, 0), (0, []), [(''1-a'', False, False)]) \<and>
   handleCardClick 0 (handleCardClick 0 easyGame) = handleCardClick 0 easyGame \<and>
   clicks (handleCardClick 0 (handleCardClick 0 easyGame)) = 1 \<and>
   flipped (cards (handleCardClick 0 (handleCardClick 0 easyGame)) 0) \<and>
   firstCard (handleCardClick 0 (handleCardClick 0 easyGame)) = Some 0 \<and>
   secondCard (handleCardClick 0 (handleCardClick 0 easyGame)) = None \<and>
   \<not> lockBoard (handleCardClick 0 (handleCardClick 0 easyGame)) \<and>
   timeouts (handleCardClick 0 (handleCardClick 0 easyGame)) = []"
proof -
  have v: "view easyGame [0] =
     ((True, False), (None, None), (0, 0, 3), (0, 0), (0, []), [(''1-a'', False, False)])"
    by (simp add: eval_defs)
  then have h: "gameActive easyGame" "\<not> lockBoard easyGame" "firstCard easyGame = None"
      "\<not> flipped (cards easyGame 0)" "\<not> matched (cards easyGame 0)"
    and k: "clicks easyGame = 0" "secondCard easyGame = None" "timeouts easyGame = []"
    by (simp_all add: view_def)
  from C3_same_tile_twice [OF h] v k show ?thesis
    by (elim conjE) simp
qed

subsection \<open>C2: a mismatch\<close>



subsection \<open>C1: a match\<close>




subsection \<open>C7: the end of the reveal\<close>



subsection \<open>C4: the deck\<close>




subsection \<open>C6: a new game and the callbacks of the old one\<close>

lemma initializeGame_resets:
  shows "firstCard (initializeGame response rs1 rs2 s) = None"
    and "secondCard (initializeGame response rs1 rs2 s) = None"
    and "\<not> lockBoard (initializeGame response rs1 rs2 s)"
    and "clicks (initializeGame response rs1 rs2 s) = 0"
    and "pairsMatched (initializeGame response rs1 rs2 s) = 0"
    and "\<not> powerUpUsedThisGame (initializeGame response rs1 rs2 s)"
    and "timerInterval (initializeGame response rs1 rs2 s) = None \<or>
         timerInterval (initializeGame response rs1 rs2 s) = Some (now s + 1000)"
  by (simp_all add: init_defs Let_def split: option.splits)





subsection \<open>C9: the click counter and the re-click branch\<close>

lemma clicks_handleCardClick: "clicks s \<le> clicks (handleCardClick e s)"
  by (simp add: handleCardClick_def turn_defs Let_def split: option.splits)

lemma clicks_runCallback: "clicks (runCallback cb s) = clicks s"
  by (cases cb)
     (simp_all add: turn_defs executePowerUpReveal_timeout_def Let_def split: option.splits)

lemma clicks_nonneg_handle: "0 \<le> clicks s \<Longrightarrow> 0 \<le> clicks (handle ev s)"
proof (cases ev)
  case (CardClick e)
  then show "0 \<le> clicks s \<Longrightarrow> 0 \<le> clicks (handle ev s)"
    using clicks_handleCardClick [of s e] by simp
next
  case (StartOrReset response rs1 rs2)
  then show "0 \<le> clicks s \<Longrightarrow> 0 \<le> clicks (handle ev s)"
    by (simp add: initializeGame_resets)
next
  case (TimeoutFires i)
  then show "0 \<le> clicks s \<Longrightarrow> 0 \<le> clicks (handle ev s)"
    by (simp add: clicks_runCallback)
next
  case IntervalTick
  then show "0 \<le> clicks s \<Longrightarrow> 0 \<le> clicks (handle ev s)"
    by (simp add: startTimer_interval_def turn_defs Let_def split: option.splits)
qed (simp_all add: difficultySelect_change_def updateGameConfig_def
      powerUpButton_click_def imageSettled_def Let_def)

lemma reachable_clicks_nonneg: "reachable s \<Longrightarrow> 0 \<le> clicks s"
proof (induction rule: reachable.induct)
  case (reachable_init response)
  show ?case
    by (simp add: initialState_def init_defs Let_def split: option.splits)
next
  case (reachable_step s ev s')
  then have "s' = handle ev s"
    by (simp add: step_def split: if_splits)
  with reachable_step show ?case
    by (simp add: clicks_nonneg_handle)
qed

text \<open>
  Claim C9, as the script has it. In every state the page can reach the click counter
  is not negative, and a card click never lowers it. A click on the pending first card
  changes nothing as long as that card is face up: the guard of line 313 rejects it.
  The branch of lines 340-345 runs only when the guard lets the click through, so with
  the clicked card face down; it then leaves the counter where it was, the card face
  down and the pending card in place.
\<close>

theorem C9_clicks_never_decrease:
  assumes "reachable s"
  shows "0 \<le> clicks s \<and> clicks s \<le> clicks (handleCardClick e s) \<and>
         0 \<le> clicks (handleCardClick e s) \<and>
         (firstCard s = Some e \<and> flipped (cards s e) \<longrightarrow> handleCardClick e s = s) \<and>
         (revertBranchTaken e s \<longrightarrow>
            clicks (handleCardClick e s) = clicks s \<and>
            \<not> flipped (cards (handleCardClick e s) e) \<and>
            firstCard (handleCardClick e s) = firstCard s)"
proof -
  have nonneg: "0 \<le> clicks s"
    using assms by (rule reachable_clicks_nonneg)
  have mono: "clicks s \<le> clicks (handleCardClick e s)"
    by (rule clicks_handleCardClick)
  have guard: "firstCard s = Some e \<and> flipped (cards s e) \<longrightarrow> handleCardClick e s = s"
    by (simp add: handleCardClick_def)
  have revert: "revertBranchTaken e s \<longrightarrow>
            clicks (handleCardClick e s) = clicks s \<and>
            \<not> flipped (cards (handleCardClick e s) e) \<and>
            firstCard (handleCardClick e s) = firstCard s"
    by (auto simp: revertBranchTaken_def handleCardClick_def setFlipped_def setSrc_def Let_def
          split: option.splits)
  from nonneg mono guard revert show ?thesis by auto
qed

text \<open>
  The pending card of the easy game face up, where the click is rejected, and the
  pending card of the second game below turned face down, where the branch runs.
\<close>

theorem C9_clicks_never_decrease_witness:
  "view (handleAll [CardClick 0] easyGame) [0] =
     ((True, False), (Some 0, None), (1, 0, 3), (0, 0), (0, []), [(''1-a'', True, False)]) \<and>
   handleCardClick 0 (handleAll [CardClick 0] easyGame) = handleAll [CardClick 0] easyGame \<and>
   revertBranchTaken 6 (handleAll pendingTurnedDown page) \<and>
   clicks (handleCardClick 6 (handleAll pendingTurnedDown page)) =
     clicks (handleAll pendingTurnedDown page) \<and>
   0 \<le> clicks (handleCardClick 6 (handleAll pendingTurnedDown page))"
proof -
  have "feasible [CardClick 0] easyGame"
    by (simp add: eval_defs)
  then have r1: "reachable (handleAll [CardClick 0] easyGame)"
    using reachable_easyGame by (rule feasible_reachable)
  have "feasible pendingTurnedDown page"
    by (simp add: eval_defs)
  then have r2: "reachable (handleAll pendingTurnedDown page)"
    using reachable_page by (rule feasible_reachable)
  have v: "view (handleAll [CardClick 0] easyGame) [0] =
     ((True, False), (Some 0, None), (1, 0, 3), (0, 0), (0, []), [(''1-a'', True, False)])"
    by (simp add: eval_defs)
  then have up: "firstCard (handleAll [CardClick 0] easyGame) = Some 0"
      "flipped (cards (handleAll [CardClick 0] easyGame) 0)"
    by (simp_all add: view_def)
  have taken: "revertBranchTaken 6 (handleAll pendingTurnedDown page)"
    by (simp add: eval_defs)
  from C9_clicks_never_decrease [OF r1, of 0] C9_clicks_never_decrease [OF r2, of 6]
    v up taken
  show ?thesis
    by blast
qed

text \<open>
  Claim C9 as stated fails: the branch can be reached. The trace below is one the event
  loop can deliver. A mismatch of the first game schedules its show callback for the
  time 1000. The new game, started at 500, selects the tile 1-a (element 6) at 600. At
  1000 the old show callback fires and turns the pending card of the new game face
  down. At 1100 the game is active and unlocked, element 6 is the pending first card
  and is face down and unmatched: a click on it passes the guard of line 313 and takes
  the branch of line 340.
\<close>

theorem C9_revert_branch_reached:
  "feasible pendingTurnedDown page \<and>
   view (handleAll pendingTurnedDown page) [6] =
     ((True, False), (Some 6, None), (1, 0, 3), (0, 0), (1100, [(1200, TurnReset)]),
      [(''1-a'', False, False)]) \<and>
   revertBranchTaken 6 (handleAll pendingTurnedDown page)"
  by (simp add: eval_defs)

end
